theory Spec2Isabelle
  imports Main "HOL-Library.AList"
begin

section \<open>JavaScript values\<close>

text \<open>
  The worker reads its events with \<open>JSON.parse\<close> into values of type \<open>any\<close>, so
  the embedding keeps them dynamically typed. Text is an Isabelle \<open>string\<close>: the bytes
  of its UTF-8 encoding, which is what the stream carries; the streams are taken to
  carry well-formed UTF-8, so that decoding replaces nothing. A number is the exact
  decimal value of its literal, \<open>JNum m e\<close> standing for \<open>m * 10 ^ e\<close>: an integer
  \<open>n\<close> is \<open>JNum n 0\<close>, and a fraction has \<open>e < 0\<close> and an \<open>m\<close> not divisible by
  ten. The program holds the nearest IEEE double instead. The two agree on the literals
  of up to 15 significant digits in the range of the normal doubles, and on the sums of
  integers below \<open>2^53\<close>; the rounding beyond them is not part of the embedding.
  \<open>undefined\<close> is \<open>None\<close> of \<open>json option\<close>.
\<close>

datatype json =
    JNull
  | JBool bool
  | JNum int int
  | JStr string
  | JArr "json list"
  | JObj "(string \<times> json) list"

datatype error =
    TypeError
  | RangeError
  | SyntaxError
  | StreamError
  | OtherError string
  | InvalidRequest string "(string \<times> json) list"
  | AuthenticationError string

text \<open>An awaited promise: its result, the error it rejects with, or no settlement at all.\<close>

datatype 'a promise = Resolved 'a | Rejected error | Pending

subsection \<open>Numbers and their decimal text\<close>

text \<open>
  Character codes and the values of digit strings are integers throughout. \<open>decimal\<close>
  is the decimal text of a number that is not negative.
\<close>

definition digit :: "int \<Rightarrow> char" where
  "digit d = char_of (48 + d)"

function decimal :: "int \<Rightarrow> string" where
  "decimal n = (if n < 10 then [digit n] else decimal (n div 10) @ [digit (n mod 10)])"
  by pat_completeness auto
termination
  by (relation "measure nat") auto

declare decimal.simps [simp del]

definition isDigit :: "char \<Rightarrow> bool" where
  "isDigit c = (48 \<le> (of_char c :: int) \<and> (of_char c :: int) \<le> 57)"

definition digitVal :: "char \<Rightarrow> int" where
  "digitVal c = of_char c - 48"

definition fromDecimal :: "string \<Rightarrow> int" where
  "fromDecimal s = foldl (\<lambda>n c. 10 * n + digitVal c) 0 s"

definition trailingZeros :: "string \<Rightarrow> nat" where
  "trailingZeros ds = length (takeWhile (\<lambda>c. c = CHR ''0'') (rev ds))"

text \<open>The number \<open>m * 10 ^ e\<close> in the form described above.\<close>

definition mkNum :: "int \<Rightarrow> int \<Rightarrow> json" where
  "mkNum m e =
     (if m = 0 then JNum 0 0
      else if 0 \<le> e then JNum (m * 10 ^ nat e) 0
      else let z = min (trailingZeros (decimal \<bar>m\<bar>)) (nat (- e))
           in JNum (m div 10 ^ z) (e + int z))"

text \<open>
  \<open>Number::toString\<close> of ECMA-262 for the decimal \<open>m * 10 ^ e\<close>: with \<open>k\<close>
  significant digits and the decimal point after the \<open>n\<close>-th digit, plain notation for
  \<open>-6 < n \<le> 21\<close> and exponent notation outside.
\<close>

definition numberToString :: "int \<Rightarrow> int \<Rightarrow> string" where
  "numberToString m e =
     (if m = 0 then ''0''
      else
        let ds = decimal \<bar>m\<bar>;
            sig = take (length ds - trailingZeros ds) ds;
            k = int (length sig);
            n = int (length ds) + e;
            body =
              (if k \<le> n \<and> n \<le> 21 then sig @ replicate (nat (n - k)) CHR ''0''
               else if 0 < n \<and> n \<le> 21 then take (nat n) sig @ ''.'' @ drop (nat n) sig
               else if - 6 < n \<and> n \<le> 0 then ''0.'' @ replicate (nat (- n)) CHR ''0'' @ sig
               else (if k = 1 then sig else take 1 sig @ ''.'' @ drop 1 sig)
                    @ ''e'' @ (if n - 1 < 0 then ''-'' else ''+'') @ decimal \<bar>n - 1\<bar>)
        in (if m < 0 then ''-'' else []) @ body)"

subsection \<open>Conversions and operators\<close>

fun join :: "string \<Rightarrow> string list \<Rightarrow> string" where
  "join sep [] = []"
| "join sep [x] = x"
| "join sep (x # y # ys) = x @ sep @ join sep (y # ys)"

text \<open>
  \<open>ToString\<close>, through \<open>ToPrimitive\<close> for objects and arrays. An object prints as
  \<open>[object Object]\<close> by the method it inherits; when it has a member \<open>toString\<close>
  of its own, that member is looked up instead, is not callable (it was parsed from
  JSON), and the conversion throws a TypeError. An array prints as its elements joined
  by commas, \<open>null\<close> elements printing as nothing, and throws when an element does.
\<close>

fun toString :: "json \<Rightarrow> error + string"
  and elementTexts :: "json list \<Rightarrow> error + string list" where
  "toString JNull = Inr ''null''"
| "toString (JBool b) = Inr (if b then ''true'' else ''false'')"
| "toString (JNum m e) = Inr (numberToString m e)"
| "toString (JStr s) = Inr s"
| "toString (JArr xs) = map_sum id (join '','') (elementTexts xs)"
| "toString (JObj kvs) =
     (if map_of kvs ''toString'' = None then Inr ''[object Object]'' else Inl TypeError)"
| "elementTexts [] = Inr []"
| "elementTexts (x # xs) =
     (case (if x = JNull then Inr [] else toString x) of
        Inl e \<Rightarrow> Inl e
      | Inr t \<Rightarrow> map_sum id (Cons t) (elementTexts xs))"

text \<open>Truthiness, as \<open>if (x)\<close>, \<open>!x\<close>, \<open>x || y\<close> and \<open>x && y\<close> test it.\<close>

fun truthy :: "json option \<Rightarrow> bool" where
  "truthy None = False"
| "truthy (Some JNull) = False"
| "truthy (Some (JBool b)) = b"
| "truthy (Some (JNum m e)) = (m \<noteq> 0)"
| "truthy (Some (JStr s)) = (s \<noteq> [])"
| "truthy (Some (JArr xs)) = True"
| "truthy (Some (JObj kvs)) = True"

text \<open>\<open>a ?? b\<close>: \<open>b\<close> when \<open>a\<close> is \<open>null\<close> or \<open>undefined\<close>.\<close>

fun orElse :: "json option \<Rightarrow> json \<Rightarrow> json" where
  "orElse None d = d"
| "orElse (Some JNull) d = d"
| "orElse (Some v) d = v"

text \<open>
  Property reads. \<open>x.name\<close> on \<open>null\<close> or \<open>undefined\<close> throws a TypeError; on any
  other value that is not an object it is \<open>undefined\<close>, for none of the names the
  worker reads is a property of a number, a string, a boolean or an array. \<open>x?.name\<close>
  is \<open>undefined\<close> where \<open>x.name\<close> would throw.
\<close>

fun getProp :: "json option \<Rightarrow> string \<Rightarrow> error + json option" where
  "getProp None name = Inl TypeError"
| "getProp (Some JNull) name = Inl TypeError"
| "getProp (Some (JObj kvs)) name = Inr (map_of kvs name)"
| "getProp (Some v) name = Inr None"

fun getOpt :: "json option \<Rightarrow> string \<Rightarrow> json option" where
  "getOpt (Some (JObj kvs)) name = map_of kvs name"
| "getOpt v name = None"

text \<open>
  \<open>a + b\<close>: both sides are made primitive, the left one first; the result is text when
  either side is a string then, and the sum of the numbers otherwise (\<open>true\<close> counts 1,
  \<open>false\<close> and \<open>null\<close> 0).
\<close>

fun toPrimitive :: "json \<Rightarrow> error + json" where
  "toPrimitive (JArr xs) = map_sum id JStr (toString (JArr xs))"
| "toPrimitive (JObj kvs) = map_sum id JStr (toString (JObj kvs))"
| "toPrimitive v = Inr v"

text \<open>The text of a primitive value.\<close>

fun primitiveText :: "json \<Rightarrow> string" where
  "primitiveText JNull = ''null''"
| "primitiveText (JBool b) = (if b then ''true'' else ''false'')"
| "primitiveText (JNum m e) = numberToString m e"
| "primitiveText (JStr s) = s"
| "primitiveText v = []"

fun isStr :: "json \<Rightarrow> bool" where
  "isStr (JStr s) = True"
| "isStr v = False"

fun toNumber :: "json \<Rightarrow> int \<times> int" where
  "toNumber (JNum m e) = (m, e)"
| "toNumber (JBool b) = (if b then 1 else 0, 0)"
| "toNumber v = (0, 0)"

definition addNumbers :: "int \<times> int \<Rightarrow> int \<times> int \<Rightarrow> json" where
  "addNumbers a b =
     (let e = min (snd a) (snd b)
      in mkNum (fst a * 10 ^ nat (snd a - e) + fst b * 10 ^ nat (snd b - e)) e)"

definition jsPlus :: "json \<Rightarrow> json \<Rightarrow> error + json" where
  "jsPlus a b =
     (case toPrimitive a of
        Inl e \<Rightarrow> Inl e
      | Inr pa \<Rightarrow>
          (case toPrimitive b of
             Inl e \<Rightarrow> Inl e
           | Inr pb \<Rightarrow>
               Inr (if isStr pa \<or> isStr pb then JStr (primitiveText pa @ primitiveText pb)
                    else addNumbers (toNumber pa) (toNumber pb))))"

subsection \<open>String methods\<close>

fun startsWith :: "string \<Rightarrow> string \<Rightarrow> bool" where
  "startsWith s [] = True"
| "startsWith [] (p # ps) = False"
| "startsWith (c # cs) (p # ps) = (c = p \<and> startsWith cs ps)"

text \<open>\<open>s.indexOf(pat)\<close>, with \<open>None\<close> for \<open>-1\<close>.\<close>

fun indexOf :: "string \<Rightarrow> string \<Rightarrow> nat option" where
  "indexOf [] pat = (if pat = [] then Some 0 else None)"
| "indexOf (c # cs) pat =
     (if startsWith (c # cs) pat then Some 0 else map_option Suc (indexOf cs pat))"

text \<open>\<open>s.split('\n')\<close>: the pieces between line feeds; never empty.\<close>

fun splitLines :: "string \<Rightarrow> string list" where
  "splitLines [] = [[]]"
| "splitLines (c # cs) =
     (if c = CHR 0x0A then [] # splitLines cs
      else (case splitLines cs of l # ls \<Rightarrow> (c # l) # ls | [] \<Rightarrow> [[c]]))"

text \<open>
  \<open>s.trim()\<close> strips white space and line terminators from both ends. \<open>wsLen\<close> is
  the length of the white-space character a text starts with (0 when it starts with
  none), \<open>wsLenEnd\<close> the same for a reversed text: the six ASCII ones, and in UTF-8
  U+00A0, U+1680, U+2000 to U+200A, U+2028, U+2029, U+202F, U+205F, U+3000 and U+FEFF.
\<close>

definition asciiSpace :: "char \<Rightarrow> bool" where
  "asciiSpace c = (c \<in> {CHR 0x09, CHR 0x0A, CHR 0x0B, CHR 0x0C, CHR 0x0D, CHR 0x20})"

definition wideSpace :: "char \<Rightarrow> char \<Rightarrow> char \<Rightarrow> bool" where
  "wideSpace a b c =
     ((a = CHR 0xE1 \<and> b = CHR 0x9A \<and> c = CHR 0x80)
      \<or> (a = CHR 0xE2 \<and> b = CHR 0x80
          \<and> ((128 \<le> (of_char c :: int) \<and> (of_char c :: int) \<le> 138)
              \<or> c = CHR 0xA8 \<or> c = CHR 0xA9 \<or> c = CHR 0xAF))
      \<or> (a = CHR 0xE2 \<and> b = CHR 0x81 \<and> c = CHR 0x9F)
      \<or> (a = CHR 0xE3 \<and> b = CHR 0x80 \<and> c = CHR 0x80)
      \<or> (a = CHR 0xEF \<and> b = CHR 0xBB \<and> c = CHR 0xBF))"

fun wsLen :: "string \<Rightarrow> nat" where
  "wsLen (a # b # c # rest) =
     (if asciiSpace a then 1 else if a = CHR 0xC2 \<and> b = CHR 0xA0 then 2
      else if wideSpace a b c then 3 else 0)"
| "wsLen [a, b] = (if asciiSpace a then 1 else if a = CHR 0xC2 \<and> b = CHR 0xA0 then 2 else 0)"
| "wsLen [a] = (if asciiSpace a then 1 else 0)"
| "wsLen [] = 0"

fun wsLenEnd :: "string \<Rightarrow> nat" where
  "wsLenEnd (c # b # a # rest) =
     (if asciiSpace c then 1 else if b = CHR 0xC2 \<and> c = CHR 0xA0 then 2
      else if wideSpace a b c then 3 else 0)"
| "wsLenEnd [c, b] = (if asciiSpace c then 1 else if b = CHR 0xC2 \<and> c = CHR 0xA0 then 2 else 0)"
| "wsLenEnd [c] = (if asciiSpace c then 1 else 0)"
| "wsLenEnd [] = 0"

lemma wsLen_drop: "0 < wsLen s \<Longrightarrow> length s - wsLen s < length s"
  by (cases s) simp_all

lemma wsLenEnd_drop: "0 < wsLenEnd r \<Longrightarrow> length r - wsLenEnd r < length r"
  by (cases r) simp_all

function trimStart :: "string \<Rightarrow> string" where
  "trimStart s = (if wsLen s = 0 then s else trimStart (drop (wsLen s) s))"
  by pat_completeness auto
termination
  by (relation "measure length") (simp_all add: wsLen_drop)

function trimEndRev :: "string \<Rightarrow> string" where
  "trimEndRev r = (if wsLenEnd r = 0 then r else trimEndRev (drop (wsLenEnd r) r))"
  by pat_completeness auto
termination
  by (relation "measure length") (simp_all add: wsLenEnd_drop)

declare trimStart.simps [simp del] trimEndRev.simps [simp del]

definition trim :: "string \<Rightarrow> string" where
  "trim s = rev (trimEndRev (rev (trimStart s)))"

text \<open>
  The UTF-8 bytes of a code point; a surrogate on its own is given the three bytes of
  its code unit.
\<close>

definition utf8 :: "int \<Rightarrow> string" where
  "utf8 cp =
     (if cp < 0x80 then [char_of cp]
      else if cp < 0x800 then [char_of (0xC0 + cp div 64), char_of (0x80 + cp mod 64)]
      else if cp < 0x10000 then
        [char_of (0xE0 + cp div 4096), char_of (0x80 + cp div 64 mod 64),
         char_of (0x80 + cp mod 64)]
      else
        [char_of (0xF0 + cp div 262144), char_of (0x80 + cp div 4096 mod 64),
         char_of (0x80 + cp div 64 mod 64), char_of (0x80 + cp mod 64)])"

text \<open>
  \<open>s.slice(0, n)\<close> counts in UTF-16 code units: a character of one to three bytes is
  one unit, a character of four bytes is two, and a cut between the two leaves the first
  of them, a high surrogate, at the end.
\<close>

definition unitWidth :: "char \<Rightarrow> nat" where
  "unitWidth c =
     (let b = (of_char c :: int)
      in if b < 0xC0 then 1 else if b < 0xE0 then 2 else if b < 0xF0 then 3 else 4)"

definition highSurrogate :: "string \<Rightarrow> string" where
  "highSurrogate s =
     (case map (\<lambda>c. (of_char c :: int)) s of
        [b0, b1, b2, b3] \<Rightarrow>
          utf8 (0xD800
                + ((b0 - 0xF0) * 262144 + (b1 - 0x80) * 4096 + (b2 - 0x80) * 64 + (b3 - 0x80)
                   - 0x10000) div 0x400)
      | _ \<Rightarrow> s)"

function slice16 :: "nat \<Rightarrow> string \<Rightarrow> string" where
  "slice16 n [] = []"
| "slice16 n (c # cs) =
     (if n = 0 then []
      else if unitWidth c = 4 \<and> n = 1 then highSurrogate (take 4 (c # cs))
      else take (unitWidth c) (c # cs)
           @ slice16 (n - (if unitWidth c = 4 then 2 else 1)) (drop (unitWidth c) (c # cs)))"
  by pat_completeness auto
termination
  by (relation "measure (\<lambda>(n, s). length s)") (auto simp: unitWidth_def Let_def)

text \<open>
  A property name is an array index when it is the decimal text, without a leading
  zero, of an integer below \<open>2^32 - 1\<close>.
\<close>

definition isArrayIndex :: "string \<Rightarrow> bool" where
  "isArrayIndex s =
     (s \<noteq> [] \<and> list_all isDigit s \<and> (s = ''0'' \<or> \<not> startsWith s ''0'')
      \<and> length s \<le> 10 \<and> fromDecimal s < 4294967295)"

section \<open>JSON.parse\<close>

text \<open>
  The platform's parser, to the grammar of ECMA-404: a lexer from text to tokens and a
  stack machine from tokens to a value. An escape \<open>\uXXXX\<close> yields the UTF-8 encoding
  of its code point, a surrogate pair the one of the code point it encodes, a
  surrogate on its own the three bytes of its code unit. \<open>None\<close> is the SyntaxError
  the parser throws.
\<close>

datatype token =
    TLBrace | TRBrace | TLBrack | TRBrack | TColon | TComma
  | TString string
  | TLit json

definition hexVal :: "char \<Rightarrow> int option" where
  "hexVal c =
     (let n = (of_char c :: int)
      in if 48 \<le> n \<and> n \<le> 57 then Some (n - 48)
         else if 97 \<le> n \<and> n \<le> 102 then Some (n - 87)
         else if 65 \<le> n \<and> n \<le> 70 then Some (n - 55)
         else None)"

definition hex4 :: "string \<Rightarrow> int option" where
  "hex4 s =
     (case map hexVal s of
        [Some a, Some b, Some c, Some d] \<Rightarrow> Some (((a * 16 + b) * 16 + c) * 16 + d)
      | _ \<Rightarrow> None)"

definition escapeChar :: "char \<Rightarrow> char option" where
  "escapeChar e =
     (if e = CHR 0x22 \<or> e = CHR 0x5C \<or> e = CHR ''/'' then Some e
      else if e = CHR ''b'' then Some (CHR 0x08)
      else if e = CHR ''f'' then Some (CHR 0x0C)
      else if e = CHR ''n'' then Some (CHR 0x0A)
      else if e = CHR ''r'' then Some (CHR 0x0D)
      else if e = CHR ''t'' then Some (CHR 0x09)
      else None)"

text \<open>
  The text of a string literal after its opening quote: the decoded string and what
  follows the closing quote.
\<close>

function lexString :: "string \<Rightarrow> string \<Rightarrow> (string \<times> string) option" where
  "lexString [] acc = None"
| "lexString (c # cs) acc =
     (if c = CHR 0x22 then Some (acc, cs)
      else if c = CHR 0x5C then
        (case cs of
           [] \<Rightarrow> None
         | e # es \<Rightarrow>
             if e = CHR ''u'' then
               (case hex4 (take 4 es) of
                  None \<Rightarrow> None
                | Some hi \<Rightarrow>
                    (case (if 0xD800 \<le> hi \<and> hi \<le> 0xDBFF
                              \<and> startsWith (drop 4 es) [CHR 0x5C, CHR ''u'']
                           then hex4 (take 4 (drop 6 es)) else None) of
                       Some lo \<Rightarrow>
                         if 0xDC00 \<le> lo \<and> lo \<le> 0xDFFF then
                           lexString (drop 10 es)
                             (acc @ utf8 (0x10000 + (hi - 0xD800) * 0x400 + (lo - 0xDC00)))
                         else lexString (drop 4 es) (acc @ utf8 hi)
                     | None \<Rightarrow> lexString (drop 4 es) (acc @ utf8 hi)))
             else
               (case escapeChar e of
                  None \<Rightarrow> None
                | Some x \<Rightarrow> lexString es (acc @ [x])))
      else if (of_char c :: int) < 32 then None
      else lexString cs (acc @ [c]))"
  by pat_completeness auto
termination
  by (relation "measure (\<lambda>(s, acc). length s)") auto

definition numChar :: "char \<Rightarrow> bool" where
  "numChar c = (isDigit c \<or> c \<in> {CHR ''-'', CHR ''+'', CHR ''.'', CHR ''e'', CHR ''E''})"

text \<open>
  A number literal, whole: an optional minus, an integer part without a leading zero,
  an optional fraction, an optional exponent.
\<close>

definition lexNumber :: "string \<Rightarrow> json option" where
  "lexNumber s =
     (let neg = startsWith s ''-'';
          s1 = (if neg then drop 1 s else s);
          ip = takeWhile isDigit s1;
          r1 = dropWhile isDigit s1;
          hasFrac = startsWith r1 ''.'';
          fp = (if hasFrac then takeWhile isDigit (drop 1 r1) else []);
          r2 = (if hasFrac then dropWhile isDigit (drop 1 r1) else r1);
          hasExp = (startsWith r2 ''e'' \<or> startsWith r2 ''E'');
          r3 = (if hasExp then drop 1 r2 else r2);
          eneg = startsWith r3 ''-'';
          r4 = (if hasExp \<and> (eneg \<or> startsWith r3 ''+'') then drop 1 r3 else r3);
          ed = (if hasExp then takeWhile isDigit r4 else []);
          r5 = (if hasExp then dropWhile isDigit r4 else r4);
          ex = (if eneg then - fromDecimal ed else fromDecimal ed);
          m = fromDecimal (ip @ fp)
      in if ip \<noteq> [] \<and> (ip = ''0'' \<or> \<not> startsWith ip ''0'') \<and> (hasFrac \<longrightarrow> fp \<noteq> [])
            \<and> (hasExp \<longrightarrow> ed \<noteq> []) \<and> r5 = []
         then Some (mkNum (if neg then - m else m) (ex - int (length fp)))
         else None)"

definition jsonSpace :: "char \<Rightarrow> bool" where
  "jsonSpace c = (c = CHR 0x20 \<or> c = CHR 0x09 \<or> c = CHR 0x0A \<or> c = CHR 0x0D)"

lemma lexString_shorter_drop:
  "lexString (drop n xs) a = Some p \<Longrightarrow>
     \<exists>t. length t \<le> Suc (length xs) \<and> (\<exists>a. lexString t a = Some p)"
  by (intro exI [of _ "drop n xs"] conjI exI [of _ a]) simp_all

lemma lexString_shorter_tail:
  "lexString xs a = Some p \<Longrightarrow>
     \<exists>t. length t \<le> Suc (length xs) \<and> (\<exists>a. lexString t a = Some p)"
  by (intro exI [of _ xs] conjI exI [of _ a]) simp_all

lemma lexString_shorter_same:
  "lexString xs a = Some p \<Longrightarrow>
     \<exists>t. length t \<le> length xs \<and> (\<exists>a. lexString t a = Some p)"
  by (intro exI [of _ xs] conjI exI [of _ a]) simp_all

lemma lexString_step:
  assumes "lexString (c # cs) acc = Some (r, rest)"
  shows "rest = cs \<or> (\<exists>t a. length t \<le> length cs \<and> lexString t a = Some (r, rest))"
  using assms
  by (simp split: if_splits list.splits option.splits del: lexString.simps
        add: lexString.simps(2) [of c cs acc])
     (blast intro: lexString_shorter_drop lexString_shorter_tail lexString_shorter_same)+

lemma lexString_rest: "lexString s acc = Some (r, rest) \<Longrightarrow> length rest < length s"
proof (induction "length s" arbitrary: s acc rule: less_induct)
  case less
  from less.prems obtain c cs where s: "s = c # cs"
    by (cases s) simp_all
  from lexString_step [of c cs acc r rest] less.prems s
  consider "rest = cs" | t a where "length t \<le> length cs" "lexString t a = Some (r, rest)"
    by blast
  then show ?case
  proof cases
    case 1
    with s show ?thesis by simp
  next
    case 2
    with less.hyps [of t a] s show ?thesis by simp
  qed
qed

function tokenize :: "string \<Rightarrow> token list option" where
  "tokenize [] = Some []"
| "tokenize (c # cs) =
     (if jsonSpace c then tokenize cs
      else if c = CHR ''{'' then map_option (Cons TLBrace) (tokenize cs)
      else if c = CHR ''}'' then map_option (Cons TRBrace) (tokenize cs)
      else if c = CHR ''['' then map_option (Cons TLBrack) (tokenize cs)
      else if c = CHR '']'' then map_option (Cons TRBrack) (tokenize cs)
      else if c = CHR '':'' then map_option (Cons TColon) (tokenize cs)
      else if c = CHR '','' then map_option (Cons TComma) (tokenize cs)
      else if c = CHR 0x22 then
        (case lexString cs [] of
           None \<Rightarrow> None
         | Some (s, rest) \<Rightarrow> map_option (Cons (TString s)) (tokenize rest))
      else if startsWith (c # cs) ''true'' then
        map_option (Cons (TLit (JBool True))) (tokenize (drop 3 cs))
      else if startsWith (c # cs) ''false'' then
        map_option (Cons (TLit (JBool False))) (tokenize (drop 4 cs))
      else if startsWith (c # cs) ''null'' then
        map_option (Cons (TLit JNull)) (tokenize (drop 3 cs))
      else if numChar c then
        (case lexNumber (takeWhile numChar (c # cs)) of
           None \<Rightarrow> None
         | Some v \<Rightarrow> map_option (Cons (TLit v)) (tokenize (dropWhile numChar cs)))
      else None)"
  by pat_completeness auto

termination
  by (relation "measure length")
     (auto dest: lexString_rest simp: less_Suc_eq_le length_dropWhile_le)

text \<open>
  The parser's stack holds the containers that are open: an array with its elements so
  far, an object with its members so far, and an object whose next member has its name
  read and its value to come.
\<close>

datatype frame =
    FArr "json list"
  | FObj "(string \<times> json) list"
  | FMember "(string \<times> json) list" string

datatype pmode =
    WantValue | WantValueOrClose | WantKeyOrClose | WantKey | WantColon | AfterValue
  | AtEnd json

text \<open>
  The members of an object are kept in the order in which the object lists them: the
  names that are array indexes first, by their value, then the other names in the order
  in which they were created. A member whose name is there already gets the new value
  at its old place.
\<close>

fun insertIndexed :: "string \<Rightarrow> json \<Rightarrow> (string \<times> json) list \<Rightarrow> (string \<times> json) list" where
  "insertIndexed k v [] = [(k, v)]"
| "insertIndexed k v ((k', v') # kvs) =
     (if isArrayIndex k' \<and> fromDecimal k' < fromDecimal k then (k', v') # insertIndexed k v kvs
      else (k, v) # (k', v') # kvs)"

definition putMember :: "string \<Rightarrow> json \<Rightarrow> (string \<times> json) list \<Rightarrow> (string \<times> json) list" where
  "putMember k v kvs =
     (if map_of kvs k \<noteq> None then AList.update k v kvs
      else if isArrayIndex k then insertIndexed k v kvs
      else kvs @ [(k, v)])"

text \<open>A value is complete: it is the result, an element, or a member's value.\<close>

fun finish :: "json \<Rightarrow> frame list \<Rightarrow> (pmode \<times> frame list) option" where
  "finish v [] = Some (AtEnd v, [])"
| "finish v (FArr xs # st) = Some (AfterValue, FArr (xs @ [v]) # st)"
| "finish v (FMember kvs k # st) = Some (AfterValue, FObj (putMember k v kvs) # st)"
| "finish v (FObj kvs # st) = None"

definition wantsValue :: "pmode \<Rightarrow> bool" where
  "wantsValue m = (m = WantValue \<or> m = WantValueOrClose)"

fun pstep :: "token \<Rightarrow> pmode \<times> frame list \<Rightarrow> (pmode \<times> frame list) option" where
  "pstep (TLit v) (m, st) = (if wantsValue m then finish v st else None)"
| "pstep (TString s) (m, st) =
     (if wantsValue m then finish (JStr s) st
      else if m = WantKey \<or> m = WantKeyOrClose then
        (case st of FObj kvs # st' \<Rightarrow> Some (WantColon, FMember kvs s # st') | _ \<Rightarrow> None)
      else None)"
| "pstep TLBrack (m, st) = (if wantsValue m then Some (WantValueOrClose, FArr [] # st) else None)"
| "pstep TLBrace (m, st) = (if wantsValue m then Some (WantKeyOrClose, FObj [] # st) else None)"
| "pstep TRBrack (m, st) =
     (if m = WantValueOrClose \<or> m = AfterValue then
        (case st of FArr xs # st' \<Rightarrow> finish (JArr xs) st' | _ \<Rightarrow> None)
      else None)"
| "pstep TRBrace (m, st) =
     (if m = WantKeyOrClose \<or> m = AfterValue then
        (case st of FObj kvs # st' \<Rightarrow> finish (JObj kvs) st' | _ \<Rightarrow> None)
      else None)"
| "pstep TComma (m, st) =
     (if m = AfterValue then
        (case st of
           FArr xs # st' \<Rightarrow> Some (WantValue, st)
         | FObj kvs # st' \<Rightarrow> Some (WantKey, st)
         | _ \<Rightarrow> None)
      else None)"
| "pstep TColon (m, st) = (if m = WantColon then Some (WantValue, st) else None)"

fun parseTokens :: "token list \<Rightarrow> pmode \<times> frame list \<Rightarrow> json option" where
  "parseTokens [] (m, st) = (case m of AtEnd v \<Rightarrow> Some v | _ \<Rightarrow> None)"
| "parseTokens (t # ts) (m, st) =
     (case pstep t (m, st) of None \<Rightarrow> None | Some s \<Rightarrow> parseTokens ts s)"

definition JSON_parse :: "string \<Rightarrow> json option" where
  "JSON_parse s =
     (case tokenize s of None \<Rightarrow> None | Some ts \<Rightarrow> parseTokens ts (WantValue, []))"

section \<open>Stream reassembly (logger.ts)\<close>

subsection \<open>Data\<close>

text \<open>
  The accumulator blocks of \<open>reassembleFromSSE\<close>: a text block with its text, a
  tool-use block with its id, its name and its argument buffer. The buffer starts as the
  empty string and only grows by \<open>+=\<close>, so it is a string; the other fields hold
  whatever the event carried.
\<close>

datatype BlockState =
    TextBlock json
  | ToolUseBlock json json string

text \<open>
  \<open>blocks\<close> is a JavaScript array written at \<open>blocks[data.index]\<close> with an index of
  type \<open>any\<close>. The index is turned into a property key: the text of a canonical array
  index below \<open>2^32 - 1\<close> addresses an element (the array grows, leaving holes), any
  other text names a property of the array object beside its elements.
\<close>

datatype key = Index nat | Named string

definition propertyKey :: "json option \<Rightarrow> error + key" where
  "propertyKey v =
     (case (case v of None \<Rightarrow> Inr ''undefined'' | Some j \<Rightarrow> toString j) of
        Inl e \<Rightarrow> Inl e
      | Inr s \<Rightarrow> Inr (if isArrayIndex s then Index (nat (fromDecimal s)) else Named s))"

record blocksArray =
  elems :: "BlockState option list"
  props :: "(string \<times> BlockState) list"

text \<open>
  \<open>blocks[k] = b\<close>. Writing the property \<open>length\<close> with an object throws a
  RangeError. \<open>__proto__\<close> is kept among the named properties: the write replaces the
  array's prototype with \<open>b\<close> and a later read of that key returns it.
\<close>

definition setBlock :: "key \<Rightarrow> BlockState \<Rightarrow> blocksArray \<Rightarrow> error + blocksArray" where
  "setBlock k b a =
     (case k of
        Index i \<Rightarrow>
          Inr (a\<lparr>elems :=
                 (if i < length (elems a) then (elems a)[i := Some b]
                  else elems a @ replicate (i - length (elems a)) None @ [Some b])\<rparr>)
      | Named n \<Rightarrow>
          if n = ''length'' then Inl RangeError
          else Inr (a\<lparr>props := AList.update n b (props a)\<rparr>))"

text \<open>
  \<open>blocks[k]\<close>, as far as the reassembler can tell: a hole, a missing property, and
  what an array inherits (its length, its methods) are all values without a \<open>type\<close> of
  \<open>text\<close> or \<open>tool_use\<close>, on which a delta does nothing.
\<close>

definition getBlock :: "key \<Rightarrow> blocksArray \<Rightarrow> BlockState option" where
  "getBlock k a =
     (case k of
        Index i \<Rightarrow> (if i < length (elems a) then elems a ! i else None)
      | Named n \<Rightarrow> map_of (props a) n)"

text \<open>The in-place update of the block \<open>blocks[k]\<close> that \<open>getBlock\<close> found.\<close>

definition updateBlock :: "key \<Rightarrow> BlockState \<Rightarrow> blocksArray \<Rightarrow> blocksArray" where
  "updateBlock k b a =
     (case k of
        Index i \<Rightarrow> a\<lparr>elems := (elems a)[i := Some b]\<rparr>
      | Named n \<Rightarrow> a\<lparr>props := AList.update n b (props a)\<rparr>)"

record Usage =
  input_tokens :: "json option"
  output_tokens :: "json option"
  reasoning_tokens :: "json option"

text \<open>The local variables of \<open>reassembleFromSSE\<close> that \<open>processRawEvent\<close> assigns.\<close>

record accumulator =
  messageId :: json
  model :: json
  stopReason :: json
  usage :: "Usage option"
  blocks :: blocksArray

definition initial :: accumulator where
  "initial =
     \<lparr>messageId = JStr [], model = JStr [], stopReason = JNull, usage = None,
      blocks = \<lparr>elems = [], props = []\<rparr>\<rparr>"

datatype AnthropicContent =
    TextContent json
  | ToolUseContent json json json

record AnthropicResponse =
  resp_id :: json
  resp_type :: string
  resp_role :: string
  resp_model :: json
  stop_reason :: json
  stop_sequence :: json
  resp_content :: "AnthropicContent option list"
  resp_usage :: "Usage option"

subsection \<open>processRawEvent\<close>

text \<open>The loop over the lines of an event: the last \<open>event:\<close> and \<open>data:\<close> lines win.\<close>

fun fieldLoop :: "string list \<Rightarrow> string \<times> string \<Rightarrow> string \<times> string" where
  "fieldLoop [] (eventType, dataStr) = (eventType, dataStr)"
| "fieldLoop (line # rest) (eventType, dataStr) =
     (if startsWith line ''event:'' then fieldLoop rest (trim (drop 6 line), dataStr)
      else if startsWith line ''data:'' then fieldLoop rest (eventType, trim (drop 5 line))
      else fieldLoop rest (eventType, dataStr))"

text \<open>The cases of the \<open>switch\<close>. \<open>Inl\<close> is an exception thrown out of the event.\<close>

definition onMessageStart :: "json \<Rightarrow> accumulator \<Rightarrow> error + accumulator" where
  "onMessageStart data st =
     (case getProp (Some data) ''message'' of
        Inl e \<Rightarrow> Inl e
      | Inr msg \<Rightarrow>
          if truthy msg then
            Inr (st\<lparr>messageId := orElse (getOpt msg ''id'') (messageId st),
                    model := orElse (getOpt msg ''model'') (model st)\<rparr>)
          else Inr st)"

definition assignBlock :: "json option \<Rightarrow> BlockState \<Rightarrow> accumulator \<Rightarrow> error + accumulator" where
  "assignBlock idx b st =
     (case propertyKey idx of
        Inl e \<Rightarrow> Inl e
      | Inr k \<Rightarrow>
          (case setBlock k b (blocks st) of
             Inl e \<Rightarrow> Inl e
           | Inr a \<Rightarrow> Inr (st\<lparr>blocks := a\<rparr>)))"

definition onContentBlockStart :: "json \<Rightarrow> accumulator \<Rightarrow> error + accumulator" where
  "onContentBlockStart data st =
     (case getProp (Some data) ''content_block'' of
        Inl e \<Rightarrow> Inl e
      | Inr block \<Rightarrow>
          if getOpt block ''type'' = Some (JStr ''text'') then
            assignBlock (getOpt (Some data) ''index'')
              (TextBlock (orElse (getOpt block ''text'') (JStr []))) st
          else if getOpt block ''type'' = Some (JStr ''tool_use'') then
            assignBlock (getOpt (Some data) ''index'')
              (ToolUseBlock (orElse (getOpt block ''id'') (JStr []))
                 (orElse (getOpt block ''name'') (JStr [])) []) st
          else Inr st)"

text \<open>
  The two \<open>+=\<close>. The argument buffer is text, so what is added to it is made
  primitive and printed.
\<close>

definition applyDelta :: "json option \<Rightarrow> BlockState \<Rightarrow> error + BlockState" where
  "applyDelta delta b =
     (case b of
        TextBlock t \<Rightarrow>
          if getOpt delta ''type'' = Some (JStr ''text_delta'')
          then map_sum id TextBlock (jsPlus t (orElse (getOpt delta ''text'') (JStr [])))
          else Inr b
      | ToolUseBlock i n buf \<Rightarrow>
          if getOpt delta ''type'' = Some (JStr ''input_json_delta'')
          then map_sum id (\<lambda>t. ToolUseBlock i n (buf @ primitiveText t))
                 (toPrimitive (orElse (getOpt delta ''partial_json'') (JStr [])))
          else Inr b)"

definition onContentBlockDelta :: "json \<Rightarrow> accumulator \<Rightarrow> error + accumulator" where
  "onContentBlockDelta data st =
     (case getProp (Some data) ''index'' of
        Inl e \<Rightarrow> Inl e
      | Inr idx \<Rightarrow>
          let delta = getOpt (Some data) ''delta''
          in if truthy delta then
               (case propertyKey idx of
                  Inl e \<Rightarrow> Inl e
                | Inr k \<Rightarrow>
                    (case getBlock k (blocks st) of
                       None \<Rightarrow> Inr st
                     | Some b \<Rightarrow>
                         (case applyDelta delta b of
                            Inl e \<Rightarrow> Inl e
                          | Inr b' \<Rightarrow> Inr (st\<lparr>blocks := updateBlock k b' (blocks st)\<rparr>))))
             else Inr st)"

definition onMessageDelta :: "json \<Rightarrow> accumulator \<Rightarrow> error + accumulator" where
  "onMessageDelta data st =
     (case getProp (Some data) ''delta'' of
        Inl e \<Rightarrow> Inl e
      | Inr delta \<Rightarrow>
          let st1 = (if truthy (getOpt delta ''stop_reason'')
                     then st\<lparr>stopReason := orElse (getOpt delta ''stop_reason'') JNull\<rparr>
                     else st);
              u = (case getOpt delta ''usage'' of
                     None \<Rightarrow> getOpt (Some data) ''usage''
                   | Some JNull \<Rightarrow> getOpt (Some data) ''usage''
                   | Some v \<Rightarrow> Some v)
          in if truthy u then
               Inr (st1\<lparr>usage := Some \<lparr>input_tokens = getOpt u ''input_tokens'',
                                         output_tokens = getOpt u ''output_tokens'',
                                         reasoning_tokens = getOpt u ''reasoning_tokens''\<rparr>\<rparr>)
             else Inr st1)"

definition onMessageStop :: "json \<Rightarrow> accumulator \<Rightarrow> error + accumulator" where
  "onMessageStop data st =
     (case getProp (Some data) ''stop_reason'' of
        Inl e \<Rightarrow> Inl e
      | Inr r \<Rightarrow> if truthy r then Inr (st\<lparr>stopReason := orElse r JNull\<rparr>) else Inr st)"

text \<open>\<open>switch (eventType || data?.type)\<close>, the cases compared with \<open>===\<close>.\<close>

definition dispatch :: "json option \<Rightarrow> json \<Rightarrow> accumulator \<Rightarrow> error + accumulator" where
  "dispatch kind data st =
     (if kind = Some (JStr ''message_start'') then onMessageStart data st
      else if kind = Some (JStr ''content_block_start'') then onContentBlockStart data st
      else if kind = Some (JStr ''content_block_delta'') then onContentBlockDelta data st
      else if kind = Some (JStr ''content_block_stop'') then Inr st
      else if kind = Some (JStr ''message_delta'') then onMessageDelta data st
      else if kind = Some (JStr ''message_stop'') then onMessageStop data st
      else Inr st)"

definition processRawEvent :: "string \<Rightarrow> accumulator \<Rightarrow> error + accumulator" where
  "processRawEvent raw st =
     (if raw = [] \<or> startsWith raw '':'' then Inr st
      else
        let (eventType, dataStr) = fieldLoop (splitLines raw) ([], [])
        in if dataStr = [] \<or> dataStr = ''[DONE]'' then Inr st
           else
             (case JSON_parse dataStr of
                None \<Rightarrow> Inr st
              | Some data \<Rightarrow>
                  dispatch (if eventType \<noteq> [] then Some (JStr eventType)
                            else getOpt (Some data) ''type'') data st))"

subsection \<open>reassembleFromSSE\<close>

text \<open>
  What successive \<open>reader.read()\<close> calls give: a chunk (here the text the streaming
  decoder yields for it), the end of the stream, or a failure. A list that ends without
  \<open>Done\<close> or \<open>Failed\<close> is a stream whose next read never settles.
\<close>

datatype readResult = Chunk string | Done | Failed

lemma indexOf_bound: "indexOf s pat = Some i \<Longrightarrow> i + length pat \<le> length s"
proof (induction s arbitrary: i)
  case Nil
  then show ?case by (simp split: if_splits)
next
  case (Cons c cs)
  have prefix: "startsWith xs ps \<Longrightarrow> length ps \<le> length xs" for xs ps :: string
    by (induction xs ps rule: startsWith.induct) simp_all
  from Cons prefix [of "c # cs" pat] show ?case
    by (auto split: if_splits)
qed

text \<open>
  The inner loop: while the buffer holds a blank line, cut the event before it and
  process it. An exception leaves the loop with the buffer and the variables as they are.
\<close>

function drain :: "string \<Rightarrow> accumulator \<Rightarrow> error option \<times> string \<times> accumulator" where
  "drain buffer st =
     (case indexOf buffer [CHR 0x0A, CHR 0x0A] of
        None \<Rightarrow> (None, buffer, st)
      | Some boundary \<Rightarrow>
          (case processRawEvent (trim (take boundary buffer)) st of
             Inl e \<Rightarrow> (Some e, drop (boundary + 2) buffer, st)
           | Inr st' \<Rightarrow> drain (drop (boundary + 2) buffer) st'))"
  by pat_completeness auto
termination
  by (relation "measure (\<lambda>(buffer, st). length buffer)") (auto dest: indexOf_bound)

declare drain.simps [simp del]

text \<open>
  The outer loop with its \<open>try\<close>: it ends at the end of the stream, at a failed read
  and at an exception out of an event, in each case with what was accumulated so far.
  \<open>None\<close>: the loop waits for a read for ever.
\<close>

fun readLoop :: "readResult list \<Rightarrow> string \<Rightarrow> accumulator \<Rightarrow> accumulator option" where
  "readLoop [] buffer st = None"
| "readLoop (Done # rs) buffer st = Some st"
| "readLoop (Failed # rs) buffer st = Some st"
| "readLoop (Chunk v # rs) buffer st =
     (case drain (buffer @ v) st of
        (Some e, buffer', st') \<Rightarrow> Some st'
      | (None, buffer', st') \<Rightarrow> readLoop rs buffer' st')"

definition safeParseJson :: "string \<Rightarrow> json" where
  "safeParseJson s =
     (if s = [] then JObj []
      else (case JSON_parse s of Some v \<Rightarrow> v | None \<Rightarrow> JStr s))"

definition toContent :: "BlockState \<Rightarrow> AnthropicContent" where
  "toContent block =
     (case block of
        TextBlock t \<Rightarrow> TextContent t
      | ToolUseBlock i n inputBuffer \<Rightarrow> ToolUseContent i n (safeParseJson inputBuffer))"

text \<open>
  \<open>blocks.map\<close> visits the elements and keeps the holes. It is the array's own method
  only while no event has written a property \<open>map\<close> over it or replaced the prototype
  through \<open>__proto__\<close>; otherwise the call throws a TypeError, outside the \<open>try\<close>.
\<close>

definition mapCallable :: "blocksArray \<Rightarrow> bool" where
  "mapCallable a = (map_of (props a) ''map'' = None \<and> map_of (props a) ''__proto__'' = None)"

text \<open>
  The response built after the loop. \<open>rid\<close> is the id \<open>randomId('msg')\<close> returns in
  this run (utils.ts is not part of the sources).
\<close>

definition build :: "string \<Rightarrow> accumulator \<Rightarrow> AnthropicResponse promise" where
  "build rid st =
     (if mapCallable (blocks st) then
        Resolved
          \<lparr>resp_id = (if truthy (Some (messageId st)) then messageId st else JStr rid),
           resp_type = ''message'',
           resp_role = ''assistant'',
           resp_model = model st,
           stop_reason = stopReason st,
           stop_sequence = JNull,
           resp_content = map (map_option toContent) (elems (blocks st)),
           resp_usage = usage st\<rparr>
      else Rejected TypeError)"

definition reassembleFromSSE :: "string \<Rightarrow> readResult list \<Rightarrow> AnthropicResponse promise" where
  "reassembleFromSSE rid stream =
     (case readLoop stream [] initial of
        None \<Rightarrow> Pending
      | Some st \<Rightarrow> build rid st)"

definition emptyResponse :: "string \<Rightarrow> AnthropicResponse" where
  "emptyResponse rid =
     \<lparr>resp_id = JStr rid, resp_type = ''message'', resp_role = ''assistant'',
      resp_model = JStr [], stop_reason = JNull, stop_sequence = JNull,
      resp_content = [], resp_usage = None\<rparr>"

subsection \<open>The events of a stream\<close>








subsection \<open>teeAndCollectStream\<close>

text \<open>
  An HTTP response as the worker sees it: the status, the headers, and the body as the
  results its reads will give (\<open>None\<close>: no body). \<open>new Response(body, init)\<close> is the
  plain construction: the constructor's check of the status is not part of the
  embedding, the statuses here being those of responses the runtime itself delivered.
\<close>

record Response =
  status :: nat
  headers :: "(string \<times> string) list"
  body :: "readResult list option"

record TeeResult =
  clientResponse :: Response
  collected :: "AnthropicResponse promise"

text \<open>
  \<open>body.tee()\<close> of the Streams standard: two branches, each delivering the results of
  the source in order. \<open>teeState\<close> below is the mechanism behind it, for what
  depends on the order in which the two branches are read.
\<close>

definition tee :: "readResult list \<Rightarrow> readResult list \<times> readResult list" where
  "tee stream = (stream, stream)"

definition teeAndCollectStream :: "string \<Rightarrow> Response \<Rightarrow> TeeResult" where
  "teeAndCollectStream rid response =
     (case body response of
        None \<Rightarrow> \<lparr>clientResponse = response, collected = Resolved (emptyResponse rid)\<rparr>
      | Some stream \<Rightarrow>
          let (clientBranch, logBranch) = tee stream
          in \<lparr>clientResponse =
                \<lparr>status = status response, headers = headers response,
                 body = Some clientBranch\<rparr>,
              collected = reassembleFromSSE rid logBranch\<rparr>)"






section \<open>The audit log (logger.ts)\<close>

datatype Provider = Anthropic | OpenRouter | Vllm | Sglang

definition providerName :: "Provider \<Rightarrow> string" where
  "providerName p =
     (case p of Anthropic \<Rightarrow> ''anthropic'' | OpenRouter \<Rightarrow> ''openrouter''
      | Vllm \<Rightarrow> ''vllm'' | Sglang \<Rightarrow> ''sglang'')"

record AnthropicMessage =
  role :: string
  content :: json

text \<open>
  The request body, with the fields the worker itself reads: \<open>stream\<close> is the truth
  value of \<open>body.stream\<close>, \<open>mcp_servers\<close> the declared servers (none when absent).
\<close>

record AnthropicRequest =
  requestModel :: string
  messages :: "AnthropicMessage list"
  stream :: bool
  tools :: json
  mcp_servers :: "json list"
  metadata :: json

text \<open>
  The \<open>response\<close> of a log entry: \<open>null\<close>, the response a stream was reassembled to,
  or the parsed body of a response that was not streamed.
\<close>

datatype loggedResponse =
    NoResponse
  | Reassembled AnthropicResponse
  | ParsedBody json

record LogEntry =
  requestId :: string
  sessionId :: string
  turnIndex :: nat
  timestamp :: string
  provider :: Provider
  originalModel :: string
  wireModel :: string
  request :: AnthropicRequest
  response :: loggedResponse
  error :: "(nat \<times> string) option"
  clientMeta :: "json option"
  latencyMs :: int
  streaming :: bool

definition buildLogKey :: "LogEntry \<Rightarrow> string" where
  "buildLogKey entry =
     ''logs/'' @ slice16 10 (timestamp entry) @ ''/'' @ sessionId entry @ ''/''
     @ decimal (int (turnIndex entry)) @ ''_'' @ requestId entry @ ''.json''"

text \<open>
  The bucket is what its \<open>put\<close> does with a key, a body and the options: it settles,
  throws, rejects, or never settles. \<open>stringify\<close> is \<open>JSON.stringify\<close> on the entry,
  which gives the text or throws.
\<close>

datatype putOutcome = PutResolves | PutThrows error | PutRejects error | PutNeverSettles

record putOptions =
  contentType :: string
  customMetadata :: "(string \<times> string) list"

type_synonym R2Bucket = "string \<Rightarrow> string \<Rightarrow> putOptions \<Rightarrow> putOutcome"

text \<open>The body of the \<open>try\<close> in \<open>writeLogEntry\<close>.\<close>

definition putEntry :: "(LogEntry \<Rightarrow> error + string) \<Rightarrow> R2Bucket \<Rightarrow> LogEntry \<Rightarrow> unit promise" where
  "putEntry stringify bucket entry =
     (let key = buildLogKey entry
      in case stringify entry of
           Inl e \<Rightarrow> Rejected e
         | Inr text \<Rightarrow>
             (case bucket key text
                     \<lparr>contentType = ''application/json'',
                      customMetadata =
                        [(''sessionId'', sessionId entry),
                         (''provider'', providerName (provider entry)),
                         (''model'', originalModel entry),
                         (''turnIndex'', decimal (int (turnIndex entry)))]\<rparr> of
                PutResolves \<Rightarrow> Resolved ()
              | PutThrows e \<Rightarrow> Rejected e
              | PutRejects e \<Rightarrow> Rejected e
              | PutNeverSettles \<Rightarrow> Pending))"

text \<open>\<open>try { ... } catch { }\<close>: whatever the body throws is swallowed.\<close>

definition writeLogEntry :: "(LogEntry \<Rightarrow> error + string) \<Rightarrow> R2Bucket \<Rightarrow> LogEntry \<Rightarrow> unit promise" where
  "writeLogEntry stringify bucket entry =
     (case putEntry stringify bucket entry of
        Rejected e \<Rightarrow> Resolved ()
      | settled \<Rightarrow> settled)"

section \<open>Turn index (logger.ts, deriveTurnIndex)\<close>

text \<open>
  Only the role of a message is read here: the string the request body holds, compared
  with \<open>===\<close>.
  \<^verbatim>\<open>let count = 0; for (const msg of messages) { if (msg.role === 'assistant') count++; } return count;\<close>
  The loop threads the counter through the messages in order.
\<close>

fun countLoop :: "nat \<Rightarrow> AnthropicMessage list \<Rightarrow> nat" where
  "countLoop count [] = count"
| "countLoop count (msg # rest) =
     countLoop (if role msg = ''assistant'' then count + 1 else count) rest"

definition deriveTurnIndex :: "AnthropicMessage list \<Rightarrow> nat" where
  "deriveTurnIndex msgs = countLoop 0 msgs"

section \<open>The request handler (index.ts)\<close>

subsection \<open>What the handler is given\<close>

text \<open>
  \<open>fetch\<close> works with collaborators whose files are not part of the sources
  (config.ts, provider.ts, translator.ts, stream.ts, errors.ts, utils.ts) and with the
  network. The embedding takes what they return as given, one field each: the request's
  path, method and headers as the handler reads them, the clock, the generated ids, the
  configuration, the body \<open>readJsonBody\<close> returns or the error it throws, the routing
  \<open>resolveProvider\<close> decides, the entries of \<open>categorizeServerTools\<close>, the answer of
  the upstream call (or the error \<open>fetch\<close> throws), the text of
  \<open>JSON.stringify(mapOpenRouterResponse(json, originalModel))\<close> and the response of
  \<open>streamOpenRouterToAnthropic\<close>. What is sent upstream is not part of it.
\<close>

text \<open>A base URL that is not configured is \<open>None\<close>, or empty.\<close>

record WorkerConfig =
  serverToolsMode :: string
  vllmBaseUrl :: "string option"
  sglangBaseUrl :: "string option"

record ServerToolEntry =
  kind :: string
  label :: string

record Exchange =
  pathname :: string
  httpMethod :: string
  authorization :: "string option"
  xApiKey :: "string option"
  sessionHeader :: "string option"
  clientMetaRaw :: "string option"
  startTime :: int
  logTime :: int
  isoTime :: string
  newRequestId :: string
  newSessionId :: string
  newMessageId :: string
  config :: WorkerConfig
  parsedBody :: "error + AnthropicRequest"
  resolved :: "Provider \<times> string \<times> string"
  serverToolEntries :: "ServerToolEntry list"
  mcpBridgeMode :: "string option"
  upstream :: "error + Response"
  mapped :: "json \<Rightarrow> string \<Rightarrow> string"
  transcoded :: "Response \<Rightarrow> string \<Rightarrow> Response"

text \<open>
  What the client gets: a response the handler returns, \<open>errorResponse(error)\<close> for an
  exception caught by the outer \<open>try\<close>, or nothing when the handler waits for ever.
\<close>

datatype reply = Reply Response | ErrorReply error | NoReply

subsection \<open>Responses and their bodies\<close>

definition await :: "'a promise \<Rightarrow> ('a \<Rightarrow> 'b promise) \<Rightarrow> 'b promise" where
  "await p f = (case p of Resolved x \<Rightarrow> f x | Rejected e \<Rightarrow> Rejected e | Pending \<Rightarrow> Pending)"

fun readAll :: "readResult list \<Rightarrow> string promise" where
  "readAll [] = Pending"
| "readAll (Done # rs) = Resolved []"
| "readAll (Failed # rs) = Rejected StreamError"
| "readAll (Chunk v # rs) = await (readAll rs) (\<lambda>t. Resolved (v @ t))"

text \<open>\<open>response.text()\<close> and \<open>response.json()\<close>; \<open>clone()\<close> leaves the response as it is.\<close>

definition responseText :: "Response \<Rightarrow> string promise" where
  "responseText r = (case body r of None \<Rightarrow> Resolved [] | Some s \<Rightarrow> readAll s)"

definition responseJson :: "Response \<Rightarrow> json promise" where
  "responseJson r =
     await (responseText r)
       (\<lambda>t. case JSON_parse t of None \<Rightarrow> Rejected SyntaxError | Some j \<Rightarrow> Resolved j)"

definition ok :: "Response \<Rightarrow> bool" where
  "ok r = (200 \<le> status r \<and> status r \<le> 299)"

text \<open>
  \<open>new Response(body, { status, headers })\<close>, as the Fetch standard has it: a
  RangeError for a status outside 200 to 599, and a TypeError for a body together with a
  status that allows none. A body given as text is a stream of its bytes, and gets the
  content type of plain text when the headers name none. Header names are in lower case,
  as \<open>Headers\<close> keeps them.
\<close>

definition nullBodyStatus :: "nat \<Rightarrow> bool" where
  "nullBodyStatus st = (st = 101 \<or> st = 103 \<or> st = 204 \<or> st = 205 \<or> st = 304)"

definition newResponse ::
  "readResult list option \<Rightarrow> nat \<Rightarrow> (string \<times> string) list \<Rightarrow> error + Response" where
  "newResponse b st hs =
     (if st < 200 \<or> 599 < st then Inl RangeError
      else if b \<noteq> None \<and> nullBodyStatus st then Inl TypeError
      else Inr \<lparr>status = st, headers = hs, body = b\<rparr>)"

definition textResponse :: "string \<Rightarrow> nat \<Rightarrow> (string \<times> string) list \<Rightarrow> error + Response" where
  "textResponse t st hs =
     newResponse (Some (if t = [] then [Done] else [Chunk t, Done])) st
       (if map_of hs ''content-type'' = None
        then hs @ [(''content-type'', ''text/plain;charset=UTF-8'')] else hs)"

text \<open>An exception thrown in an \<open>async\<close> function rejects its promise.\<close>

definition settle :: "error + 'a \<Rightarrow> 'a promise" where
  "settle r = (case r of Inl e \<Rightarrow> Rejected e | Inr v \<Rightarrow> Resolved v)"

subsection \<open>API keys\<close>

definition lower :: "char \<Rightarrow> char" where
  "lower c =
     (if 65 \<le> (of_char c :: int) \<and> (of_char c :: int) \<le> 90 then char_of ((of_char c :: int) + 32)
      else c)"

text \<open>The token of an \<open>authorization\<close> header that starts with \<open>bearer \<close>, in any case.\<close>

definition bearerToken :: "string option \<Rightarrow> string option" where
  "bearerToken auth =
     (case auth of
        None \<Rightarrow> None
      | Some a \<Rightarrow> if startsWith (map lower a) ''bearer '' then Some (trim (drop 7 a)) else None)"

definition extractApiKey :: "string option \<Rightarrow> string option \<Rightarrow> error + string" where
  "extractApiKey auth key =
     (case bearerToken auth of
        Some (c # cs) \<Rightarrow> Inr (c # cs)
      | _ \<Rightarrow>
          (case key of
             Some (c # cs) \<Rightarrow> Inr (c # cs)
           | _ \<Rightarrow> Inl (AuthenticationError ''Missing API key'')))"

definition extractOptionalApiKey :: "string option \<Rightarrow> string option \<Rightarrow> string option" where
  "extractOptionalApiKey auth key =
     (let usable = (\<lambda>t. case t of Some s \<Rightarrow> s \<noteq> [] \<and> s \<noteq> ''no-auth'' | None \<Rightarrow> False)
      in if usable (bearerToken auth) then bearerToken auth
         else if usable key then key
         else None)"

definition safeParseJsonMeta :: "string \<Rightarrow> json option" where
  "safeParseJsonMeta raw =
     (case JSON_parse raw of Some (JObj kvs) \<Rightarrow> Some (JObj kvs) | _ \<Rightarrow> None)"

subsection \<open>The upstream calls\<close>

text \<open>\<open>JSON.stringify({ error: 'Anthropic upstream error' })\<close>.\<close>

definition upstreamErrorBody :: string where
  \<open>upstreamErrorBody = ''{"error":"Anthropic upstream error"}''\<close>

definition proxyAnthropic :: "error + Response \<Rightarrow> Response promise" where
  \<open>proxyAnthropic up =
     (case up of
        Inl e \<Rightarrow> Rejected e
      | Inr upstreamResp \<Rightarrow>
          if \<not> ok upstreamResp then
            await (responseText upstreamResp)
              (\<lambda>t. settle
                 (textResponse (if t \<noteq> [] then t else upstreamErrorBody)
                    (status upstreamResp)
                    [(''content-type'',
                      case map_of (headers upstreamResp) ''content-type'' of
                        Some c \<Rightarrow> c | None \<Rightarrow> ''application/json'')]))
          else Resolved upstreamResp)\<close>

text \<open>
  \<open>handleOpenAICompatible\<close> and \<open>handleOpenRouter\<close> differ in the text of their
  errors: \<open>errorName\<close> is \<open>vllm\<close>, \<open>sglang\<close> or \<open>OpenRouter\<close>.
\<close>

definition handleCompatible ::
  "string \<Rightarrow> Exchange \<Rightarrow> AnthropicRequest \<Rightarrow> string \<Rightarrow> Response promise" where
  "handleCompatible errorName x b originalModel' =
     (case upstream x of
        Inl e \<Rightarrow> Rejected e
      | Inr upstreamResp \<Rightarrow>
          if stream b then
            (if \<not> ok upstreamResp then
               await (responseText upstreamResp)
                 (\<lambda>payload. Rejected
                    (InvalidRequest (errorName @ '' streaming error'')
                       [(''status'', JNum (int (status upstreamResp)) 0),
                        (''body'', JStr payload)]))
             else Resolved (transcoded x upstreamResp originalModel'))
          else
            await (responseJson upstreamResp)
              (\<lambda>j. if \<not> ok upstreamResp then
                     Rejected
                       (InvalidRequest (errorName @ '' error'')
                          [(''status'', JNum (int (status upstreamResp)) 0), (''body'', j)])
                   else
                     settle
                       (textResponse (mapped x j originalModel') 200
                          [(''content-type'', ''application/json''),
                           (''cache-control'', ''no-store'')])))"

definition handleOpenAICompatible ::
  "Provider \<Rightarrow> Exchange \<Rightarrow> AnthropicRequest \<Rightarrow> string \<Rightarrow> Response promise" where
  "handleOpenAICompatible p = handleCompatible (providerName p)"

definition handleOpenRouter :: "Exchange \<Rightarrow> AnthropicRequest \<Rightarrow> string \<Rightarrow> Response promise" where
  "handleOpenRouter = handleCompatible ''OpenRouter''"

subsection \<open>fetch\<close>

text \<open>
  The handler up to the log entry: the key, the server-tool policy and the check of the
  declared MCP servers. The result is the provider, the wire model and the original
  model the request goes on with.
\<close>

definition routing :: "Exchange \<Rightarrow> AnthropicRequest \<Rightarrow> error + (Provider \<times> string \<times> string)" where
  "routing x b =
     (let (provider0, wireModel0, originalModel') = resolved x;
          key = (if provider0 = Vllm \<or> provider0 = Sglang
                 then Inr (extractOptionalApiKey (authorization x) (xApiKey x))
                 else map_sum id Some (extractApiKey (authorization x) (xApiKey x)));
          otherServerTools = filter (\<lambda>t. kind t = ''other'') (serverToolEntries x);
          restricted = (provider0 \<noteq> Anthropic \<and> otherServerTools \<noteq> [])
      in case key of
           Inl e \<Rightarrow> Inl e
         | Inr apiKey \<Rightarrow>
             if restricted \<and> serverToolsMode (config x) = ''error'' then
               Inl (InvalidRequest ''Server tools require Anthropic provider''
                      [(''tools'', JArr (map (\<lambda>t. JStr (label t)) otherServerTools))])
             else
               let (provider', wireModel') =
                     (if restricted \<and> serverToolsMode (config x) = ''enforceAnthropic''
                      then (Anthropic, originalModel') else (provider0, wireModel0))
               in if mcp_servers b \<noteq> [] \<and> provider' \<noteq> Anthropic
                     \<and> mcpBridgeMode x \<noteq> Some ''http-sse'' then
                    Inl (InvalidRequest
                           ''MCP servers require Anthropic routing or http-sse bridge''
                           [(''mode'',
                             JStr (case mcpBridgeMode x of Some m \<Rightarrow> m | None \<Rightarrow> ''off''))])
                  else Inr (provider', wireModel', originalModel'))"

text \<open>\<open>scheduleLog\<close>: the entry handed to \<open>writeLogEntry\<close>.\<close>

definition scheduleLog ::
  "Exchange \<Rightarrow> AnthropicRequest \<Rightarrow> Provider \<times> string \<times> string \<Rightarrow>
   loggedResponse \<Rightarrow> bool \<Rightarrow> (nat \<times> string) option \<Rightarrow> LogEntry" where
  "scheduleLog x b r resp isStreaming err =
     \<lparr>requestId = newRequestId x,
      sessionId = (case sessionHeader x of Some s \<Rightarrow> s | None \<Rightarrow> newSessionId x),
      turnIndex = deriveTurnIndex (messages b),
      timestamp = isoTime x,
      provider = fst r,
      originalModel = snd (snd r),
      wireModel = fst (snd r),
      request = b,
      response = resp,
      error = err,
      clientMeta =
        (case clientMetaRaw x of
           None \<Rightarrow> None
         | Some raw \<Rightarrow> if raw = [] then None else safeParseJsonMeta raw),
      latencyMs = logTime x - startTime x,
      streaming = isStreaming\<rparr>"

text \<open>
  \<open>logStreamingResponse\<close>: the response is teed; an entry is written once the
  reassembled response is there, and none if that promise does not resolve.
\<close>

definition logStreamingResponse ::
  "Exchange \<Rightarrow> AnthropicRequest \<Rightarrow> Provider \<times> string \<times> string \<Rightarrow> Response \<Rightarrow>
   Response \<times> LogEntry list" where
  "logStreamingResponse x b r resp =
     (let t = teeAndCollectStream (newMessageId x) resp
      in (clientResponse t,
          case collected t of
            Resolved assembled \<Rightarrow> [scheduleLog x b r (Reassembled assembled) True None]
          | _ \<Rightarrow> []))"

text \<open>The three branches of \<open>fetch\<close> after the routing, with what each logs.\<close>

definition serve ::
  "Exchange \<Rightarrow> AnthropicRequest \<Rightarrow> Provider \<times> string \<times> string \<Rightarrow>
   (Response \<times> LogEntry list) promise" where
  "serve x b r =
     (let (provider', wireModel', originalModel') = r
      in if provider' = Anthropic then
           await (proxyAnthropic (upstream x))
             (\<lambda>resp.
                if \<not> ok resp then
                  await (responseText resp)
                    (\<lambda>errorText.
                       Resolved
                         (resp,
                          [scheduleLog x b r NoResponse False
                             (Some (status resp, slice16 1000 errorText))]))
                else Resolved (logStreamingResponse x b r resp))
         else if provider' = Vllm \<or> provider' = Sglang then
           (case (if provider' = Vllm then vllmBaseUrl (config x) else sglangBaseUrl (config x)) of
              Some (c # upstreamUrl) \<Rightarrow>
                await (handleOpenAICompatible provider' x b originalModel')
                  (\<lambda>resp.
                     if stream b then Resolved (logStreamingResponse x b r resp)
                     else
                       await (responseJson resp)
                         (\<lambda>clonedBody.
                            Resolved (resp, [scheduleLog x b r (ParsedBody clonedBody) False None])))
            | _ \<Rightarrow>
                Rejected
                  (InvalidRequest
                     (providerName provider' @ '' provider is not configured. Set UPSTREAM_''
                      @ (if provider' = Vllm then ''VLLM'' else ''SGLANG'') @ ''_BASE_URL.'') []))
         else
           await (handleOpenRouter x b originalModel')
             (\<lambda>resp.
                if stream b then Resolved (logStreamingResponse x b r resp)
                else
                  await (responseJson resp)
                    (\<lambda>clonedBody.
                       Resolved (resp, [scheduleLog x b r (ParsedBody clonedBody) False None]))))"

text \<open>
  \<open>fetch\<close>: the reply, and the entries handed to \<open>writeLogEntry\<close> through
  \<open>ctx.waitUntil\<close>.
\<close>

definition fetch :: "Exchange \<Rightarrow> reply \<times> LogEntry list" where
  "fetch x =
     (if pathname x \<noteq> ''/v1/messages'' \<or> httpMethod x \<noteq> ''POST'' then
        (case textResponse ''Not found'' 404 [] of
           Inl e \<Rightarrow> (ErrorReply e, [])
         | Inr notFound \<Rightarrow> (Reply notFound, []))
      else
        (case parsedBody x of
           Inl e \<Rightarrow> (ErrorReply e, [])
         | Inr b \<Rightarrow>
             (case routing x b of
                Inl e \<Rightarrow> (ErrorReply e, [])
              | Inr r \<Rightarrow>
                  (case serve x b r of
                     Resolved (resp, entries) \<Rightarrow> (Reply resp, entries)
                   | Rejected e \<Rightarrow> (ErrorReply e, [])
                   | Pending \<Rightarrow> (NoReply, [])))))"

section \<open>Sample inputs\<close>

text \<open>
  \<open>buildSSEStream\<close> of the tests (logger.test.ts) enqueues one chunk per event, the
  event's name on an \<open>event:\<close> line and \<open>JSON.stringify\<close> of its data on a
  \<open>data:\<close> line, and closes the stream. The data are given here as the text
  \<open>JSON.stringify\<close> prints. The first two streams are those of the tests.
\<close>

definition sseEvent :: "string \<Rightarrow> string \<Rightarrow> string" where
  "sseEvent event dataText =
     ''event: '' @ event @ [CHR 0x0A] @ ''data: '' @ dataText @ [CHR 0x0A, CHR 0x0A]"

definition simpleTextEvents :: "string list" where
  \<open>simpleTextEvents =
     [sseEvent ''message_start''
        ''{"type":"message_start","message":{"id":"msg_test","type":"message","role":"assistant","model":"claude-3","content":[]}}'',
      sseEvent ''content_block_start''
        ''{"type":"content_block_start","index":0,"content_block":{"type":"text","text":""}}'',
      sseEvent ''content_block_delta''
        ''{"type":"content_block_delta","index":0,"delta":{"type":"text_delta","text":"Hello "}}'',
      sseEvent ''content_block_delta''
        ''{"type":"content_block_delta","index":0,"delta":{"type":"text_delta","text":"world!"}}'',
      sseEvent ''content_block_stop''
        ''{"type":"content_block_stop","index":0}'',
      sseEvent ''message_delta''
        ''{"type":"message_delta","delta":{"stop_reason":"end_turn","usage":{"input_tokens":10,"output_tokens":5}}}'',
      sseEvent ''message_stop''
        ''{"type":"message_stop"}'']\<close>

definition toolUseEvents :: "string list" where
  \<open>toolUseEvents =
     [sseEvent ''message_start''
        ''{"type":"message_start","message":{"id":"msg_tools","type":"message","role":"assistant","model":"claude-3","content":[]}}'',
      sseEvent ''content_block_start''
        ''{"type":"content_block_start","index":0,"content_block":{"type":"text","text":""}}'',
      sseEvent ''content_block_delta''
        ''{"type":"content_block_delta","index":0,"delta":{"type":"text_delta","text":"Let me search."}}'',
      sseEvent ''content_block_stop''
        ''{"type":"content_block_stop","index":0}'',
      sseEvent ''content_block_start''
        ''{"type":"content_block_start","index":1,"content_block":{"type":"tool_use","id":"tool_1","name":"search","input":{}}}'',
      sseEvent ''content_block_delta''
        (''{"type":"content_block_delta","index":1,"delta":{"type":"input_json_delta","partial_json":"{''
         @ [CHR 0x5C] @ ''"query'' @ [CHR 0x5C] @ ''":"}}''),
      sseEvent ''content_block_delta''
        (''{"type":"content_block_delta","index":1,"delta":{"type":"input_json_delta","partial_json":"''
         @ [CHR 0x5C] @ ''"hello'' @ [CHR 0x5C] @ ''"}"}}''),
      sseEvent ''content_block_stop''
        ''{"type":"content_block_stop","index":1}'',
      sseEvent ''message_delta''
        ''{"type":"message_delta","delta":{"stop_reason":"tool_use"}}'',
      sseEvent ''message_stop''
        ''{"type":"message_stop"}'']\<close>








text \<open>
  A \<open>content_block_start\<close> event whose index is the string \<open>map\<close>.
\<close>

definition shadowingEvent :: string where
  \<open>shadowingEvent =
     sseEvent ''content_block_start''
       ''{"type":"content_block_start","index":"map","content_block":{"type":"text","text":""}}''\<close>

text \<open>The entry \<open>makeEntry()\<close> of the tests builds.\<close>

definition sampleEntry :: LogEntry where
  "sampleEntry =
     \<lparr>requestId = ''req_001'', sessionId = ''sess_001'', turnIndex = 0,
      timestamp = ''2026-02-15T10:00:00.000Z'', provider = Anthropic,
      originalModel = ''claude-sonnet-4-5-20250929'',
      wireModel = ''claude-sonnet-4-5-20250929'',
      request =
        \<lparr>requestModel = ''claude-sonnet-4-5-20250929'',
         messages = [\<lparr>role = ''user'', content = JStr ''Hi''\<rparr>],
         stream = False, tools = JNull, mcp_servers = [], metadata = JNull\<rparr>,
      response =
        Reassembled
          \<lparr>resp_id = JStr ''msg_001'', resp_type = ''message'', resp_role = ''assistant'',
           resp_model = JStr ''claude-sonnet-4-5-20250929'', stop_reason = JStr ''end_turn'',
           stop_sequence = JNull, resp_content = [Some (TextContent (JStr ''Hello!''))],
           resp_usage = None\<rparr>,
      error = None, clientMeta = None, latencyMs = 150, streaming = False\<rparr>"

text \<open>
  A request to \<open>/v1/messages\<close> with an API key, not streamed, routed to the provider
  \<open>p\<close>, and the upstream's answer \<open>up\<close>; an upstream failure and an upstream message.
\<close>

definition sampleRequest :: AnthropicRequest where
  "sampleRequest =
     \<lparr>requestModel = ''claude-3'',
      messages = [\<lparr>role = ''user'', content = JStr ''Hi''\<rparr>],
      stream = False, tools = JNull, mcp_servers = [], metadata = JNull\<rparr>"

definition sampleExchange :: "Provider \<Rightarrow> Response \<Rightarrow> Exchange" where
  \<open>sampleExchange p up =
     \<lparr>pathname = ''/v1/messages'', httpMethod = ''POST'',
      authorization = None, xApiKey = Some ''sk-test'',
      sessionHeader = Some ''sess_001'', clientMetaRaw = None,
      startTime = 1000, logTime = 1150, isoTime = ''2026-02-15T10:00:00.000Z'',
      newRequestId = ''req_001'', newSessionId = ''sess_gen'', newMessageId = ''msg_gen'',
      config = \<lparr>serverToolsMode = ''error'', vllmBaseUrl = Some ''http://localhost:8000'',
                sglangBaseUrl = Some ''http://localhost:30000''\<rparr>,
      parsedBody = Inr sampleRequest,
      resolved = (p, ''claude-3'', ''claude-3''),
      serverToolEntries = [], mcpBridgeMode = None,
      upstream = Inr up,
      mapped = (\<lambda>j m. ''{"id":"msg_1","type":"message","role":"assistant","content":[]}''),
      transcoded = (\<lambda>r m. r)\<rparr>\<close>


definition upstreamMessage :: Response where
  \<open>upstreamMessage =
     \<lparr>status = 200, headers = [(''content-type'', ''application/json'')],
      body = Some [Chunk ''{"id":"msg_1","type":"message","role":"assistant","model":"claude-3","content":[{"type":"text","text":"Hi"}],"stop_reason":"end_turn"}'', Done]\<rparr>\<close>

text \<open>
  The name in the error of a translated upstream failure, and whether the provider's
  base URL is configured (only vllm and sglang have one that may be missing).
\<close>

definition errorName :: "Provider \<Rightarrow> string" where
  "errorName p = (if p = OpenRouter then ''OpenRouter'' else providerName p)"

definition baseUrlSet :: "Exchange \<Rightarrow> Provider \<Rightarrow> bool" where
  "baseUrlSet x p =
     (case (if p = Vllm then vllmBaseUrl (config x)
            else if p = Sglang then sglangBaseUrl (config x) else Some ''-'') of
        Some (c # cs) \<Rightarrow> True
      | _ \<Rightarrow> False)"

section \<open>Properties\<close>

subsection \<open>The read loop over a whole stream\<close>










subsection \<open>Reassembly of the simple text stream\<close>

text \<open>
  Claim C1. The stream of the seven events \<open>message_start\<close> (id \<open>msg_test\<close>, model
  \<open>claude-3\<close>), \<open>content_block_start\<close> of a text block at index 0, the text deltas
  \<open>Hello \<close> and \<open>world!\<close>, \<open>content_block_stop\<close>, \<open>message_delta\<close> with stop reason
  \<open>end_turn\<close> and usage 10 in, 5 out, and \<open>message_stop\<close>, teed and collected, resolves
  to the response with id \<open>msg_test\<close>, exactly one content block, the text
  \<open>Hello world!\<close>, stop reason \<open>end_turn\<close> and usage 10 and 5.
\<close>

theorem reassembles_simple_text_response:
  "collected
     (teeAndCollectStream rid
        \<lparr>status = 200, headers = [(''content-type'', ''text/event-stream'')],
         body = Some (map Chunk simpleTextEvents @ [Done])\<rparr>)
   = Resolved
       \<lparr>resp_id = JStr ''msg_test'', resp_type = ''message'', resp_role = ''assistant'',
        resp_model = JStr ''claude-3'', stop_reason = JStr ''end_turn'',
        stop_sequence = JNull,
        resp_content = [Some (TextContent (JStr ''Hello world!''))],
        resp_usage =
          Some \<lparr>input_tokens = Some (JNum 10 0), output_tokens = Some (JNum 5 0),
                reasoning_tokens = None\<rparr>\<rparr>"
  by code_simp

subsection \<open>The client's branch of the tee\<close>






subsection \<open>Writing the log entry\<close>

lemma putEntry_cases:
  "putEntry stringify bucket entry = Resolved ()
   \<or> (\<exists>e. putEntry stringify bucket entry = Rejected e)
   \<or> (\<exists>t. bucket (buildLogKey entry) t
            \<lparr>contentType = ''application/json'',
             customMetadata =
               [(''sessionId'', sessionId entry),
                (''provider'', providerName (provider entry)),
                (''model'', originalModel entry),
                (''turnIndex'', decimal (int (turnIndex entry)))]\<rparr> = PutNeverSettles)"
proof (cases "stringify entry")
  case (Inl e)
  then show ?thesis by (simp add: putEntry_def)
next
  case (Inr t)
  then show ?thesis
    by (cases "bucket (buildLogKey entry) t
            \<lparr>contentType = ''application/json'',
             customMetadata =
               [(''sessionId'', sessionId entry),
                (''provider'', providerName (provider entry)),
                (''model'', originalModel entry),
                (''turnIndex'', decimal (int (turnIndex entry)))]\<rparr>")
       (auto simp: putEntry_def)
qed

text \<open>
  Claim C3. For every entry and every bucket the promise of \<open>writeLogEntry\<close> never
  rejects, and it resolves whenever \<open>put\<close> settles at all: by resolving, by throwing or
  by rejecting.
\<close>

theorem writeLogEntry_never_rejects:
  "writeLogEntry stringify bucket entry \<noteq> Rejected e
   \<and> ((\<forall>k t opts. bucket k t opts \<noteq> PutNeverSettles)
        \<longrightarrow> writeLogEntry stringify bucket entry = Resolved ())"
proof -
  have never: "writeLogEntry stringify bucket entry \<noteq> Rejected e"
    unfolding writeLogEntry_def
    by (cases "putEntry stringify bucket entry") simp_all
  have settles: "writeLogEntry stringify bucket entry = Resolved ()"
    if always: "\<forall>k t opts. bucket k t opts \<noteq> PutNeverSettles"
  proof -
    from putEntry_cases [of stringify bucket entry] always
    have "putEntry stringify bucket entry = Resolved ()
          \<or> (\<exists>x. putEntry stringify bucket entry = Rejected x)"
      by blast
    then show ?thesis
      unfolding writeLogEntry_def by (elim disjE exE) simp_all
  qed
  from never settles show ?thesis by blast
qed

theorem writeLogEntry_never_rejects_witness:
  "(\<lambda>k t opts. PutRejects (OtherError ''R2 unavailable'')) k t opts \<noteq> PutNeverSettles
   \<and> writeLogEntry (\<lambda>x. Inr ''{}'') (\<lambda>k t opts. PutRejects (OtherError ''R2 unavailable'')) sampleEntry
       = Resolved ()
   \<and> writeLogEntry (\<lambda>x. Inr ''{}'') (\<lambda>k t opts. PutThrows (OtherError ''R2 unavailable'')) sampleEntry
       = Resolved ()"
  using writeLogEntry_never_rejects
      [of "\<lambda>x. Inr ''{}''" "\<lambda>k t opts. PutRejects (OtherError ''R2 unavailable'')" sampleEntry]
    writeLogEntry_never_rejects
      [of "\<lambda>x. Inr ''{}''" "\<lambda>k t opts. PutThrows (OtherError ''R2 unavailable'')" sampleEntry]
  by simp

subsection \<open>Two message_start events\<close>


















subsection \<open>Upstream errors\<close>















subsection \<open>The record of a request that is not streamed\<close>

lemma native_success_logged_through_reassembly:
  assumes "pathname x = ''/v1/messages''" and "httpMethod x = ''POST''"
      and "parsedBody x = Inr b" and "routing x b = Inr (Anthropic, w, m)"
      and "upstream x = Inr up" and "ok up"
  shows "fetch x =
           (Reply (clientResponse (teeAndCollectStream (newMessageId x) up)),
            case collected (teeAndCollectStream (newMessageId x) up) of
              Resolved assembled \<Rightarrow>
                [scheduleLog x b (Anthropic, w, m) (Reassembled assembled) True None]
            | _ \<Rightarrow> [])"
  using assms
  by (simp add: fetch_def serve_def proxyAnthropic_def await_def logStreamingResponse_def Let_def)

lemma other_success_logged_directly:
  assumes "pathname x = ''/v1/messages''" and "httpMethod x = ''POST''"
      and "parsedBody x = Inr b" and "routing x b = Inr (p, w, m)"
      and "upstream x = Inr up" and "ok up"
      and "p \<noteq> Anthropic" and "baseUrlSet x p" and "\<not> stream b"
      and "responseJson up = Resolved j" and "JSON_parse (mapped x j m) = Some parsed"
  shows "fetch x =
           (Reply \<lparr>status = 200,
                   headers = [(''content-type'', ''application/json''),
                              (''cache-control'', ''no-store'')],
                   body = Some [Chunk (mapped x j m), Done]\<rparr>,
            [scheduleLog x b (p, w, m) (ParsedBody parsed) False None])"
proof -
  from assms(11) have filled: "mapped x j m \<noteq> []"
    by (auto simp: JSON_parse_def)
  have h: "handleCompatible n x b m =
             Resolved \<lparr>status = 200,
                       headers = [(''content-type'', ''application/json''),
                                  (''cache-control'', ''no-store'')],
                       body = Some [Chunk (mapped x j m), Done]\<rparr>" for n
    using assms filled
    by (simp add: handleCompatible_def await_def settle_def textResponse_def newResponse_def
          nullBodyStatus_def)
  have j: "responseJson \<lparr>status = 200, headers = hs, body = Some [Chunk (mapped x j m), Done]\<rparr>
             = Resolved parsed" for hs
    using assms by (simp add: responseJson_def responseText_def await_def)
  show ?thesis
  proof (cases p)
    case Anthropic
    with assms show ?thesis by simp
  next
    case OpenRouter
    with assms h j show ?thesis
      by (simp add: fetch_def serve_def handleOpenRouter_def await_def)
  next
    case Vllm
    with assms h j show ?thesis
      by (auto simp: fetch_def serve_def handleOpenAICompatible_def await_def baseUrlSet_def
            split: option.splits list.splits)
  next
    case Sglang
    with assms h j show ?thesis
      by (auto simp: fetch_def serve_def handleOpenAICompatible_def await_def baseUrlSet_def
            split: option.splits list.splits)
  qed
qed

text \<open>
  Claim C6 says that a successful request that is not streamed is logged at once with
  the parsed response body and the streaming flag off, for the native provider too.
  \<open>other_success_logged_directly\<close> above is that for OpenRouter, vllm and sglang. The
  native branch never looks at \<open>body.stream\<close>
  (\<open>native_success_logged_through_reassembly\<close>): for the request below, not streamed and
  answered by the upstream with a JSON message, the entry has the streaming flag on and,
  for its response, what the reassembler makes of a body that holds no event: no
  content, no model, a generated id.
\<close>

theorem native_non_streaming_logged_as_stream:
  "fetch (sampleExchange Anthropic upstreamMessage)
   = (Reply upstreamMessage,
      [\<lparr>requestId = ''req_001'', sessionId = ''sess_001'', turnIndex = 0,
        timestamp = ''2026-02-15T10:00:00.000Z'', provider = Anthropic,
        originalModel = ''claude-3'', wireModel = ''claude-3'',
        request = sampleRequest,
        response =
          Reassembled
            \<lparr>resp_id = JStr ''msg_gen'', resp_type = ''message'', resp_role = ''assistant'',
             resp_model = JStr [], stop_reason = JNull, stop_sequence = JNull,
             resp_content = [], resp_usage = None\<rparr>,
        error = None, clientMeta = None, latencyMs = 150, streaming = True\<rparr>])"
  by code_simp

theorem native_non_streaming_logged_as_stream_witness:
  "fst (fetch (sampleExchange Anthropic upstreamMessage)) = Reply upstreamMessage
   \<and> map streaming (snd (fetch (sampleExchange Anthropic upstreamMessage))) = [True]
   \<and> map response (snd (fetch (sampleExchange Anthropic upstreamMessage)))
       = [Reassembled (emptyResponse ''msg_gen'')]"
  using native_non_streaming_logged_as_stream
  by (simp add: emptyResponse_def)

subsection \<open>The turn index\<close>

lemma countLoop_counts:
  "countLoop c ms = c + length (filter (\<lambda>m. role m = ''assistant'') ms)"
  by (induction ms arbitrary: c) simp_all

text \<open>
  Claim C7. For every message sequence the derived turn index is the number of messages
  whose role is assistant; the empty sequence gives 0, and so does every sequence that
  holds user messages only.
\<close>

theorem deriveTurnIndex_counts_assistant:
  "deriveTurnIndex ms = length (filter (\<lambda>m. role m = ''assistant'') ms)
   \<and> deriveTurnIndex [] = 0
   \<and> ((\<forall>m \<in> set ms. role m = ''user'') \<longrightarrow> deriveTurnIndex ms = 0)"
proof -
  have count: "deriveTurnIndex xs = length (filter (\<lambda>m. role m = ''assistant'') xs)" for xs
    by (simp add: deriveTurnIndex_def countLoop_counts)
  have "deriveTurnIndex ms = 0" if "\<forall>m \<in> set ms. role m = ''user''"
  proof -
    from that have "filter (\<lambda>m. role m = ''assistant'') ms = []"
      by (auto simp: filter_empty_conv)
    then show ?thesis by (simp add: count)
  qed
  then show ?thesis by (simp add: count)
qed

theorem deriveTurnIndex_counts_assistant_witness:
  "role \<lparr>role = ''user'', content = JStr ''Hello''\<rparr> = ''user''
   \<and> deriveTurnIndex [\<lparr>role = ''user'', content = JStr ''Hello''\<rparr>] = 0
   \<and> deriveTurnIndex
        [\<lparr>role = ''user'', content = JStr ''Hello''\<rparr>,
         \<lparr>role = ''assistant'', content = JStr ''Hi!''\<rparr>,
         \<lparr>role = ''user'', content = JStr ''Follow up''\<rparr>] = 1"
  using deriveTurnIndex_counts_assistant [of "[\<lparr>role = ''user'', content = JStr ''Hello''\<rparr>]"]
    deriveTurnIndex_counts_assistant
      [of "[\<lparr>role = ''user'', content = JStr ''Hello''\<rparr>,
            \<lparr>role = ''assistant'', content = JStr ''Hi!''\<rparr>,
            \<lparr>role = ''user'', content = JStr ''Follow up''\<rparr>]"]
  by simp

subsection \<open>A read that fails\<close>

lemma readLoop_failed_as_done:
  "readLoop (map Chunk cs @ Failed # rest) buf st = readLoop (map Chunk cs @ [Done]) buf st"
proof (induction cs arbitrary: buf st)
  case Nil
  then show ?case by simp
next
  case (Cons c cs)
  obtain e buf' st' where d: "drain (buf @ c) st = (e, buf', st')"
    by (cases "drain (buf @ c) st")
  with Cons.IH [of buf' st'] show ?case
    by (cases e) simp_all
qed

lemma readLoop_done_returns: "\<exists>st'. readLoop (map Chunk cs @ [Done]) buf st = Some st'"
proof (induction cs arbitrary: buf st)
  case Nil
  then show ?case by simp
next
  case (Cons c cs)
  obtain e buf' st' where d: "drain (buf @ c) st = (e, buf', st')"
    by (cases "drain (buf @ c) st")
  with Cons.IH [of buf' st'] show ?case
    by (cases e) simp_all
qed

text \<open>
  A failed read ends the loop as the end of the stream does: the promise settles as it
  would have, had the stream been closed after the same chunks, with the response built
  from what these chunks accumulated. It resolves whenever \<open>blocks.map\<close> is still the
  array's own method.
\<close>

lemma reassemble_failed_read:
  "reassembleFromSSE rid (map Chunk cs @ Failed # rest)
     = reassembleFromSSE rid (map Chunk cs @ [Done])
   \<and> (\<exists>st. readLoop (map Chunk cs @ [Done]) [] initial = Some st
          \<and> reassembleFromSSE rid (map Chunk cs @ Failed # rest) = build rid st)"
  using readLoop_done_returns [of cs "[]" initial]
  by (auto simp: reassembleFromSSE_def readLoop_failed_as_done)

lemma build_resolves: "mapCallable (blocks st) \<Longrightarrow> \<exists>r. build rid st = Resolved r"
  by (simp add: build_def)

text \<open>
  Claim C8 says that the promise still resolves when a read fails. After a
  \<open>content_block_start\<close> whose index is the string \<open>map\<close>, the property \<open>map\<close> of
  \<open>blocks\<close> is a block and not the array's method, \<open>blocks.map(...)\<close> after the loop
  throws, and the promise rejects, with or without the failed read.
\<close>

theorem failed_read_after_shadowed_map_rejects:
  "reassembleFromSSE ''msg_r'' [Chunk shadowingEvent, Failed] = Rejected TypeError"
  by code_simp

subsection \<open>The input of a tool-use block\<close>






subsection \<open>Determinism\<close>



end
